theory Spec2Isabelle
  imports Main "HOL-Library.Sublist" "HOL-Library.Word"
begin

section \<open>Python text\<close>

text \<open>
  Python text is modelled as \<open>string\<close>, a list of 8-bit characters, so the model
  covers the code points below 256. \<open>py_isspace\<close> lists the code points of that range
  for which Python's \<open>str.isspace\<close> holds: tab, line feed, vertical tab, form feed,
  carriage return, the four separators 28 to 31, the space, NEL (133) and the no-break
  space (160).
\<close>

definition py_isspace :: "char \<Rightarrow> bool" where
  "py_isspace c =
     (let n = (of_char c :: nat)
      in (9 \<le> n \<and> n \<le> 13) \<or> (28 \<le> n \<and> n \<le> 32) \<or> n = 133 \<or> n = 160)"

text \<open>
  \<open>s.strip()\<close> and \<open>s.strip(chars)\<close> remove, at both ends, the longest run of
  characters of the given class.
\<close>

definition strip_where :: "(char \<Rightarrow> bool) \<Rightarrow> string \<Rightarrow> string" where
  "strip_where P s = dropWhile P (rev (dropWhile P (rev s)))"

definition strip :: "string \<Rightarrow> string" where
  "strip s = strip_where py_isspace s"

definition strip_chars :: "string \<Rightarrow> string \<Rightarrow> string" where
  "strip_chars chars s = strip_where (\<lambda>c. c \<in> set chars) s"

definition startswith :: "string \<Rightarrow> string \<Rightarrow> bool" where
  "startswith s p = prefix p s"

section \<open>Exceptions\<close>

text \<open>
  The source filters exceptions by class twice (\<open>except Exception\<close> and
  \<open>except FileNotFoundError\<close>), so an exception carries its class, and the classes
  carry Python's hierarchy. \<open>Derived n\<close> stands for any further class named \<open>n\<close> that
  derives from \<open>Exception\<close>.
\<close>

datatype exc_class =
    BaseException
  | Exception
  | SystemExit
  | KeyboardInterrupt
  | GeneratorExit
  | OSError
  | FileNotFoundError
  | PermissionError
  | IsADirectoryError
  | ValueError
  | SyntaxError
  | Derived string

fun mro :: "exc_class \<Rightarrow> exc_class list" where
  "mro BaseException = [BaseException]"
| "mro Exception = [Exception, BaseException]"
| "mro SystemExit = [SystemExit, BaseException]"
| "mro KeyboardInterrupt = [KeyboardInterrupt, BaseException]"
| "mro GeneratorExit = [GeneratorExit, BaseException]"
| "mro OSError = [OSError, Exception, BaseException]"
| "mro FileNotFoundError = [FileNotFoundError, OSError, Exception, BaseException]"
| "mro PermissionError = [PermissionError, OSError, Exception, BaseException]"
| "mro IsADirectoryError = [IsADirectoryError, OSError, Exception, BaseException]"
| "mro ValueError = [ValueError, Exception, BaseException]"
| "mro SyntaxError = [SyntaxError, Exception, BaseException]"
| "mro (Derived n) = [Derived n, Exception, BaseException]"

fun class_name :: "exc_class \<Rightarrow> string" where
  "class_name BaseException = ''BaseException''"
| "class_name Exception = ''Exception''"
| "class_name SystemExit = ''SystemExit''"
| "class_name KeyboardInterrupt = ''KeyboardInterrupt''"
| "class_name GeneratorExit = ''GeneratorExit''"
| "class_name OSError = ''OSError''"
| "class_name FileNotFoundError = ''FileNotFoundError''"
| "class_name PermissionError = ''PermissionError''"
| "class_name IsADirectoryError = ''IsADirectoryError''"
| "class_name ValueError = ''ValueError''"
| "class_name SyntaxError = ''SyntaxError''"
| "class_name (Derived n) = n"

text \<open>
  An exception value: its class, \<open>str(e)\<close>, and the text of the stack frames of its
  traceback. The frames name files of the host by their paths; the exceptions the model
  raises itself carry no frame text.
\<close>

record exn =
  cls :: exc_class
  msg :: string
  frames :: string

definition isinstance :: "exn \<Rightarrow> exc_class \<Rightarrow> bool" where
  "isinstance e c = (c \<in> set (mro (cls e)))"

text \<open>\<open>traceback.format_exc()\<close> for the exception being handled.\<close>

definition format_exc :: "exn \<Rightarrow> string" where
  "format_exc e =
     ''Traceback (most recent call last):\<newline>'' @ frames e @ class_name (cls e) @
     (if msg e = [] then [] else '': '' @ msg e) @ ''\<newline>''"

section \<open>The world: working directory, standard output, the completion endpoint\<close>

type_synonym byte = "8 word"

text \<open>
  What a name of the working directory may denote: a regular file with its contents, a
  directory, a file the process may not read, or a file whose read fails.
\<close>

datatype fentry = Regular "byte list" | Directory | Unreadable | Faulty

datatype genai_call = Configure string | New_model string | Generate string

record world =
  files :: "string \<rightharpoonup> fentry"
  stdout :: "string list"
  genai_calls :: "genai_call list"

definition print :: "string \<Rightarrow> world \<Rightarrow> world" where
  "print line w = w\<lparr>stdout := stdout w @ [line]\<rparr>"

definition contact :: "genai_call \<Rightarrow> world \<Rightarrow> world" where
  "contact c w = w\<lparr>genai_calls := genai_calls w @ [c]\<rparr>"

text \<open>\<open>open(name, "rb")\<close> and \<open>f.read()\<close>.\<close>

datatype file_obj = Readable "byte list" | Broken

definition os_error :: "exc_class \<Rightarrow> string \<Rightarrow> string \<Rightarrow> exn" where
  "os_error c what name =
     \<lparr>cls = c, msg = what @ '': '' @ [CHR 0x27] @ name @ [CHR 0x27], frames = []\<rparr>"

definition open_rb :: "world \<Rightarrow> string \<Rightarrow> exn + file_obj" where
  "open_rb w name =
     (case files w name of
        None \<Rightarrow> Inl (os_error FileNotFoundError ''[Errno 2] No such file or directory'' name)
      | Some Directory \<Rightarrow> Inl (os_error IsADirectoryError ''[Errno 21] Is a directory'' name)
      | Some Unreadable \<Rightarrow> Inl (os_error PermissionError ''[Errno 13] Permission denied'' name)
      | Some (Regular bs) \<Rightarrow> Inr (Readable bs)
      | Some Faulty \<Rightarrow> Inr Broken)"

definition read :: "file_obj \<Rightarrow> exn + byte list" where
  "read f =
     (case f of
        Readable bs \<Rightarrow> Inr bs
      | Broken \<Rightarrow> Inl \<lparr>cls = OSError, msg = ''[Errno 5] Input/output error'', frames = []\<rparr>)"

section \<open>The schema summarizer\<close>

text \<open>
  \<open>DataFrame.info\<close>, \<open>DataFrame.head\<close> and \<open>DataFrame.to_string\<close> belong to the
  pandas library, not to the repository: they are parameters, and so is the type of the
  dataset. \<open>analyze_dataframe\<close> hands on what they render.
\<close>

definition analyze_dataframe ::
  "('df \<Rightarrow> string) \<Rightarrow> ('df \<Rightarrow> 'df) \<Rightarrow> ('df \<Rightarrow> string) \<Rightarrow> 'df \<Rightarrow> string \<times> string" where
  "analyze_dataframe info head to_string df =
     (let df_schema = info df;
          df_head = to_string (head df)
      in (df_schema, df_head))"

section \<open>The code generator\<close>

text \<open>
  The client library of the completion endpoint is not part of the repository; its three
  entry points are parameters. Each says whether the call raises. The text of a response
  is a property that may itself raise.
\<close>

datatype response = Response (response_text: "exn + string")

record genai =
  configure :: "string \<Rightarrow> exn option"
  GenerativeModel :: "string \<Rightarrow> exn option"
  generate_content :: "string \<Rightarrow> exn + response"

definition system_instruction :: string where
  "system_instruction =
     ''\<newline>'' @
     ''    You are an expert Python data analyst. Your task is to generate Python code\<newline>'' @
     ''    to analyze and visualize a pandas DataFrame.\<newline>'' @
     ''\<newline>'' @
     ''    - The DataFrame is already loaded and available in a variable named `df`.\<newline>'' @
     ''    - You must generate code that uses pandas, matplotlib, or seaborn.\<newline>'' @
     ''    - Your code should produce a single plot or a DataFrame as output.\<newline>'' @
     ''    - IMPORTANT: To display the output, you must save any generated plot to a file\<newline>'' @
     ''      named 'output.png'. If the result is a DataFrame, it should be the final\<newline>'' @
     ''      expression in the script.\<newline>'' @
     ''    - Do not include any sample data creation (e.g., `pd.DataFrame(...)`).\<newline>'' @
     ''    - The code should be a single, executable snippet.\<newline>'' @
     ''    ''"

definition full_prompt :: "string \<Rightarrow> string \<Rightarrow> string \<Rightarrow> string" where
  "full_prompt user_prompt df_schema df_head =
     ''\<newline>'' @
     ''    System Instruction:\<newline>'' @
     ''    '' @ system_instruction @ ''\<newline>'' @
     ''\<newline>'' @
     ''    Here is the schema of the DataFrame `df`:\<newline>'' @
     ''    '' @ df_schema @ ''\<newline>'' @
     ''\<newline>'' @
     ''    Here are the first 5 rows of the data:\<newline>'' @
     ''    '' @ df_head @ ''\<newline>'' @
     ''\<newline>'' @
     ''    User Request:\<newline>'' @
     ''    '' @ [CHR 0x22] @ user_prompt @ [CHR 0x22] @ ''\<newline>'' @
     ''\<newline>'' @
     ''    Generate the Python code to fulfill this request.\<newline>'' @
     ''    ''"

text \<open>
  The body of the first \<open>try\<close>: the credential check, \<open>genai.configure\<close> and the
  construction of the model object. The credential is a \<open>str\<close>, as the signature says,
  so \<open>not api_key\<close> holds for the empty text only.
\<close>

definition configure_model :: "genai \<Rightarrow> string \<Rightarrow> world \<Rightarrow> (exn + unit) \<times> world" where
  "configure_model g api_key w =
     (if api_key = [] then
        (Inl \<lparr>cls = ValueError, msg = ''API key is missing.'', frames = []\<rparr>, w)
      else
        let w1 = contact (Configure api_key) w in
        (case configure g api_key of
           Some e \<Rightarrow> (Inl e, w1)
         | None \<Rightarrow>
             let w2 = contact (New_model ''gemini-2.5-pro'') w1 in
             (case GenerativeModel g ''gemini-2.5-pro'' of
                Some e \<Rightarrow> (Inl e, w2)
              | None \<Rightarrow> (Inr (), w2))))"

text \<open>The body of the second \<open>try\<close>: the completion call and the read of its text.\<close>

definition request_code :: "genai \<Rightarrow> string \<Rightarrow> world \<Rightarrow> (exn + string) \<times> world" where
  "request_code g prompt w =
     (let w1 = contact (Generate prompt) w in
      (case generate_content g prompt of
         Inl e \<Rightarrow> (Inl e, w1)
       | Inr r \<Rightarrow> (response_text r, w1)))"

text \<open>The clean-up of the received code (the markdown fence).\<close>

definition strip_fence :: "string \<Rightarrow> string" where
  "strip_fence generated_code =
     (if startswith (strip generated_code) ''```python''
      then strip (strip_chars ''`'' (drop 9 (strip generated_code)))
      else generated_code)"

text \<open>
  \<open>generate_analysis_code\<close> returns the code text, or \<open>Inl e\<close> when an exception
  that \<open>except Exception\<close> does not catch leaves the function.
\<close>

definition generate_analysis_code ::
  "genai \<Rightarrow> string \<Rightarrow> string \<Rightarrow> string \<Rightarrow> string \<Rightarrow> world \<Rightarrow> (exn + string) \<times> world" where
  "generate_analysis_code g user_prompt df_schema df_head api_key w =
     (case configure_model g api_key w of
        (Inl e, w1) \<Rightarrow>
          if isinstance e Exception
          then (Inr (''print('Error configuring AI model: '' @ msg e @ ''')''), w1)
          else (Inl e, w1)
      | (Inr u, w1) \<Rightarrow>
          let w2 = print ''--- Sending Prompt to AI Model ---'' w1 in
          (case request_code g (full_prompt user_prompt df_schema df_head) w2 of
             (Inl e, w3) \<Rightarrow>
               if isinstance e Exception
               then (Inr (''print('Error calling AI model: '' @ msg e @ ''')''), w3)
               else (Inl e, w3)
           | (Inr generated_code, w3) \<Rightarrow>
               let code = strip_fence generated_code;
                   w4 = print ''\<newline>--- AI Generated Code ---'' w3;
                   w5 = print code w4
               in (Inr code, w5)))"

section \<open>The executor\<close>

text \<open>
  The values of the result dictionary, and the values bound in the globals handed to
  \<open>exec\<close>: the dataset and the pandas module.
\<close>

datatype pyval = PyBytes "byte list" | PyStr string

datatype 'df binding = Dataset 'df | Pandas

definition execution_globals :: "'df \<Rightarrow> (string \<rightharpoonup> 'df binding)" where
  "execution_globals df = [''df'' \<mapsto> Dataset df, ''pd'' \<mapsto> Pandas]"

text \<open>
  \<open>exec\<close> is the host's primitive, a parameter of the model: given the code text, the
  globals and the world, the code either runs to completion or raises, and leaves a
  world behind in both cases.
\<close>

datatype outcome = Completed world | Raised exn world

text \<open>The handler of the outer \<open>except Exception as e\<close>.\<close>

definition on_error :: "exn \<Rightarrow> (string \<rightharpoonup> pyval) \<Rightarrow> world \<Rightarrow> (string \<rightharpoonup> pyval) \<times> world" where
  "on_error e output w =
     (output(''error'' \<mapsto> PyStr (format_exc e)),
      print (''An error occurred during code execution: '' @ msg e) w)"

text \<open>
  The inner \<open>try\<close>: open the artifact, read it into the image slot. \<open>Inl e\<close> is an
  exception that the inner \<open>except FileNotFoundError\<close> does not catch.
\<close>

definition capture_output ::
  "(string \<rightharpoonup> pyval) \<Rightarrow> world \<Rightarrow> exn + (string \<rightharpoonup> pyval) \<times> world" where
  "capture_output output w =
     (case open_rb w ''output.png'' of
        Inr f \<Rightarrow>
          (case read f of
             Inr bs \<Rightarrow>
               Inr (output(''image'' \<mapsto> PyBytes bs), print ''Successfully captured 'output.png'.'' w)
           | Inl e \<Rightarrow>
               if isinstance e FileNotFoundError
               then Inr (output,
                 print ''No 'output.png' found. The script may have produced other output.'' w)
               else Inl e)
      | Inl e \<Rightarrow>
          if isinstance e FileNotFoundError
          then Inr (output,
            print ''No 'output.png' found. The script may have produced other output.'' w)
          else Inl e)"

text \<open>
  \<open>safe_execute_code\<close> returns the result dictionary, or \<open>Inl e\<close> when an exception
  that \<open>except Exception\<close> does not catch leaves the function.
\<close>

definition safe_execute_code ::
  "(string \<Rightarrow> (string \<rightharpoonup> 'df binding) \<Rightarrow> world \<Rightarrow> outcome) \<Rightarrow> string \<Rightarrow> 'df \<Rightarrow> world
     \<Rightarrow> (exn + (string \<rightharpoonup> pyval)) \<times> world" where
  "safe_execute_code exec code df w =
     (let output = Map.empty;
          w1 = print ''\<newline>--- Executing Code ---'' w
      in case exec code (execution_globals df) w1 of
           Raised e w2 \<Rightarrow>
             if isinstance e Exception
             then (case on_error e output w2 of (out, w3) \<Rightarrow> (Inr out, w3))
             else (Inl e, w2)
         | Completed w2 \<Rightarrow>
             (case capture_output output w2 of
                Inr (out, w3) \<Rightarrow> (Inr out, w3)
              | Inl e \<Rightarrow>
                  if isinstance e Exception
                  then (case on_error e output w2 of (out, w3) \<Rightarrow> (Inr out, w3))
                  else (Inl e, w2)))"

section \<open>Notions of the specification\<close>

text \<open>
  A response whose code is wrapped in a markdown fence tagged as Python: the opening
  marker on a line of its own, the code, the closing fence on a line of its own. The
  same response with no fencing is \<open>body\<close> itself.
\<close>

definition fenced :: "string \<Rightarrow> string" where
  "fenced body = ''```python\<newline>'' @ body @ ''\<newline>```''"

text \<open>
  The endpoint accepts the credential, builds the model object and answers the prompt
  with the text \<open>r\<close>.
\<close>

definition answers :: "genai \<Rightarrow> string \<Rightarrow> string \<Rightarrow> string \<Rightarrow> bool" where
  "answers g api_key prompt r =
     (api_key \<noteq> [] \<and> configure g api_key = None \<and>
      GenerativeModel g ''gemini-2.5-pro'' = None \<and>
      generate_content g prompt = Inr (Response (Inr r)))"

definition one_line :: "string \<Rightarrow> bool" where
  "one_line s = (CHR ''\<newline>'' \<notin> set s)"

section \<open>Sample inputs\<close>

text \<open>An endpoint that answers every prompt with \<open>r\<close>, and one whose completion call raises \<open>e\<close>.\<close>

definition replying :: "string \<Rightarrow> genai" where
  "replying r =
     \<lparr>configure = (\<lambda>k. None), GenerativeModel = (\<lambda>m. None),
      generate_content = (\<lambda>p. Inr (Response (Inr r)))\<rparr>"

definition failing :: "exn \<Rightarrow> genai" where
  "failing e =
     \<lparr>configure = (\<lambda>k. None), GenerativeModel = (\<lambda>m. None),
      generate_content = (\<lambda>p. Inl e)\<rparr>"

definition unavailable :: exn where
  "unavailable =
     \<lparr>cls = Derived ''ServiceUnavailable'',
      msg = ''503 failed to connect:\<newline>can't reach the endpoint'', frames = []\<rparr>"

text \<open>A working directory without \<open>output.png\<close>, and one where the name is taken.\<close>

definition empty_world :: world where
  "empty_world = \<lparr>files = Map.empty, stdout = [], genai_calls = []\<rparr>"

definition world_with :: "fentry \<Rightarrow> world" where
  "world_with f = \<lparr>files = [''output.png'' \<mapsto> f], stdout = [], genai_calls = []\<rparr>"

text \<open>
  What Python's \<open>exec\<close> does with six code texts, in a working directory where
  \<open>output.png\<close> is absent or a regular file. No other text is used below; the sample
  gives it the outcome of a text that does not parse.
\<close>

definition raised_in_code :: "exc_class \<Rightarrow> string \<Rightarrow> exn" where
  "raised_in_code c m =
     \<lparr>cls = c, msg = m,
      frames = ''  File '' @ [CHR 0x22] @ ''<string>'' @ [CHR 0x22] @ '', line 1, in <module>\<newline>''\<rparr>"

definition write_png :: "byte list \<Rightarrow> world \<Rightarrow> world" where
  "write_png bs w = w\<lparr>files := (files w)(''output.png'' \<mapsto> Regular bs)\<rparr>"

definition exec_sample :: "string \<Rightarrow> (string \<rightharpoonup> 'df binding) \<Rightarrow> world \<Rightarrow> outcome" where
  "exec_sample code globals w =
     (if code = ''pass'' then Completed w
      else if code = ''raise SystemExit'' then Raised (raised_in_code SystemExit []) w
      else if code = ''raise ValueError('bad column')''
        then Raised (raised_in_code ValueError ''bad column'') w
      else if code = ''open('output.png', 'wb').write(b'PNG')''
        then Completed (write_png [0x50, 0x4E, 0x47] w)
      else if code = ''open('output.png', 'wb').close()''
        then Completed (write_png [] w)
      else if code = ''open('output.png', 'wb').write(b'PNG'); raise ValueError('late')''
        then Raised (raised_in_code ValueError ''late'') (write_png [0x50, 0x4E, 0x47] w)
      else Raised (raised_in_code SyntaxError ''invalid syntax'') w)"

section \<open>Stripping\<close>

lemma strip_where_Cons:
  assumes "P c"
  shows "strip_where P (c # s) = strip_where P s"
proof (cases "\<forall>x\<in>set s. P x")
  case True
  with assms have 1: "dropWhile P (rev (c # s)) = []" and 2: "dropWhile P (rev s) = []"
    by (simp_all add: dropWhile_eq_Nil_conv)
  show ?thesis
    unfolding strip_where_def 1 2 by (rule refl)
next
  case False
  with assms show ?thesis
    by (auto simp: strip_where_def dropWhile_append)
qed

lemma strip_where_snoc: "P c \<Longrightarrow> strip_where P (s @ [c]) = strip_where P s"
  by (simp add: strip_where_def)

lemma strip_where_fixed:
  assumes "s \<noteq> []" and "\<not> P (hd s)" and "\<not> P (last s)"
  shows "strip_where P s = s"
proof -
  from assms(1,3) have "\<not> P (hd (rev s))"
    by (simp add: hd_rev)
  then have 1: "dropWhile P (rev s) = rev s"
    by (simp add: dropWhile_eq_self_iff)
  from assms(2) have 2: "dropWhile P s = s"
    by (simp add: dropWhile_eq_self_iff)
  show ?thesis
    unfolding strip_where_def 1 rev_rev_ident 2 by (rule refl)
qed

lemma isspace_newline: "py_isspace CHR ''\<newline>''"
  by (simp add: py_isspace_def)

section \<open>The fence clean-up\<close>

lemma strip_fenced: "strip (fenced body) = fenced body"
  unfolding strip_def fenced_def
  by (rule strip_where_fixed) (simp_all add: py_isspace_def)

lemma strip_fence_fenced: "strip_fence (fenced body) = strip body"
proof -
  have a: "startswith (fenced body) ''```python''"
    by (simp add: startswith_def fenced_def)
  have b: "drop 9 (fenced body) = ''\<newline>'' @ body @ ''\<newline>```''"
    by (simp add: fenced_def)
  have c: "strip_chars ''`'' (''\<newline>'' @ body @ ''\<newline>```'') = ''\<newline>'' @ body @ ''\<newline>''"
    by (simp add: strip_chars_def strip_where_def)
  have d: "strip (''\<newline>'' @ body @ ''\<newline>'') = strip body"
    using strip_where_Cons [of py_isspace "CHR ''\<newline>''" "body @ ''\<newline>''"]
      strip_where_snoc [of py_isspace "CHR ''\<newline>''" body]
    by (simp add: strip_def isspace_newline)
  have "strip_fence (fenced body) = strip (strip_chars ''`'' (drop 9 (fenced body)))"
    by (simp only: strip_fence_def strip_fenced a if_True)
  also have "\<dots> = strip (''\<newline>'' @ body @ ''\<newline>'')"
    by (simp only: b c)
  also have "\<dots> = strip body"
    by (rule d)
  finally show ?thesis .
qed

lemma strip_fence_plain: "\<not> startswith (strip r) ''```python'' \<Longrightarrow> strip_fence r = r"
  by (simp add: strip_fence_def)

lemma generate_answered:
  "answers g api_key (full_prompt user_prompt df_schema df_head) r \<Longrightarrow>
   fst (generate_analysis_code g user_prompt df_schema df_head api_key w) = Inr (strip_fence r)"
  by (simp add: answers_def generate_analysis_code_def configure_model_def request_code_def Let_def)

lemma answers_replying: "k \<noteq> [] \<Longrightarrow> answers (replying r) k p r"
  by (simp add: answers_def replying_def)

section \<open>The executor step by step\<close>

lemma open_rb_error: "open_rb w name = Inl e \<Longrightarrow> isinstance e OSError"
  by (auto simp: open_rb_def os_error_def isinstance_def split: option.splits fentry.splits)

lemma read_error: "read f = Inl e \<Longrightarrow> isinstance e OSError \<and> \<not> isinstance e FileNotFoundError"
  by (auto simp: read_def isinstance_def split: file_obj.splits)

lemma isinstance_OSError: "isinstance e OSError \<Longrightarrow> isinstance e Exception"
  by (cases "cls e") (auto simp: isinstance_def)

lemma capture_output_error: "capture_output out w = Inl e \<Longrightarrow> isinstance e Exception"
  by (auto simp: capture_output_def split: sum.splits if_splits
      dest: open_rb_error read_error isinstance_OSError)

lemma capture_output_regular:
  "files w ''output.png'' = Some (Regular bs) \<Longrightarrow>
   capture_output out w =
     Inr (out(''image'' \<mapsto> PyBytes bs), print ''Successfully captured 'output.png'.'' w)"
  by (simp add: capture_output_def open_rb_def read_def)

lemma capture_output_absent:
  "files w ''output.png'' = None \<Longrightarrow>
   capture_output out w =
     Inr (out, print ''No 'output.png' found. The script may have produced other output.'' w)"
  by (simp add: capture_output_def open_rb_def os_error_def isinstance_def)

lemma capture_output_open_fails:
  "open_rb w ''output.png'' = Inl e \<Longrightarrow> \<not> isinstance e FileNotFoundError \<Longrightarrow>
   capture_output out w = Inl e"
  by (simp add: capture_output_def)

lemma capture_output_read_fails:
  "open_rb w ''output.png'' = Inr f \<Longrightarrow> read f = Inl e \<Longrightarrow> capture_output out w = Inl e"
  by (auto simp: capture_output_def dest: read_error)

lemma capture_output_dom:
  "capture_output Map.empty w = Inr (out, w') \<Longrightarrow> dom out = {''image''} \<or> dom out = {}"
  by (auto simp: capture_output_def split: sum.splits if_splits)

lemma safe_execute_code_raised:
  "exec code (execution_globals df) (print ''\<newline>--- Executing Code ---'' w) = Raised e w2 \<Longrightarrow>
   safe_execute_code exec code df w =
     (if isinstance e Exception
      then (Inr [''error'' \<mapsto> PyStr (format_exc e)],
            print (''An error occurred during code execution: '' @ msg e) w2)
      else (Inl e, w2))"
  by (simp add: safe_execute_code_def on_error_def)

lemma safe_execute_code_completed:
  "exec code (execution_globals df) (print ''\<newline>--- Executing Code ---'' w) = Completed w2 \<Longrightarrow>
   safe_execute_code exec code df w =
     (case capture_output Map.empty w2 of
        Inr (out, w3) \<Rightarrow> (Inr out, w3)
      | Inl e \<Rightarrow> (Inr [''error'' \<mapsto> PyStr (format_exc e)],
            print (''An error occurred during code execution: '' @ msg e) w2))"
  by (auto simp: safe_execute_code_def on_error_def split: sum.splits dest: capture_output_error)

section \<open>The claims\<close>

text \<open>
  C1, as amended. Whenever \<open>safe_execute_code\<close> returns a result, the result has one
  of three shapes: only the image slot, only the error slot, or no slot at all; the image
  and the error slot are never both populated. When the executed code raises an exception
  that derives from \<open>Exception\<close>, the artifact check is skipped and the result holds the
  formatted trace in its error slot and nothing else. An exception that does not derive
  from \<open>Exception\<close> (\<open>SystemExit\<close>, \<open>KeyboardInterrupt\<close>) is not caught: it leaves
  \<open>safe_execute_code\<close>, and no result is returned.
\<close>

theorem safe_execute_code_result_shapes:
  "(fst (safe_execute_code exec code df w) = Inr out \<longrightarrow>
      (dom out = {''image''} \<or> dom out = {''error''} \<or> dom out = {}) \<and>
      (out ''image'' = None \<or> out ''error'' = None)) \<and>
   (exec code (execution_globals df) (print ''\<newline>--- Executing Code ---'' w) = Raised e w2 \<longrightarrow>
      safe_execute_code exec code df w =
        (if isinstance e Exception
         then (Inr [''error'' \<mapsto> PyStr (format_exc e)],
               print (''An error occurred during code execution: '' @ msg e) w2)
         else (Inl e, w2)))"
proof (intro conjI impI)
  assume r: "fst (safe_execute_code exec code df w) = Inr out"
  show d: "dom out = {''image''} \<or> dom out = {''error''} \<or> dom out = {}"
  proof (cases "exec code (execution_globals df) (print ''\<newline>--- Executing Code ---'' w)")
    case (Completed w2)
    show ?thesis
    proof (cases "capture_output Map.empty w2")
      case (Inl e)
      with Completed have "fst (safe_execute_code exec code df w) =
          Inr [''error'' \<mapsto> PyStr (format_exc e)]"
        by (simp add: safe_execute_code_completed)
      with r have "out = [''error'' \<mapsto> PyStr (format_exc e)]"
        by (simp only: sum.inject)
      then show ?thesis
        by simp
    next
      case (Inr p)
      with r Completed capture_output_dom [of w2 "fst p" "snd p"] show ?thesis
        by (auto simp: safe_execute_code_completed split: prod.splits)
    qed
  next
    case (Raised e' w2')
    with r show ?thesis
      by (auto simp: safe_execute_code_raised split: if_splits)
  qed
  have "''error'' \<notin> dom out \<or> ''image'' \<notin> dom out"
  proof -
    have "''error'' \<notin> {''image''}" and "''image'' \<notin> {''error''}"
      by simp_all
    with d show ?thesis
      by (elim disjE) simp_all
  qed
  then show "out ''image'' = None \<or> out ''error'' = None"
    by (simp only: domIff) blast
next
  assume "exec code (execution_globals df) (print ''\<newline>--- Executing Code ---'' w) = Raised e w2"
  then show "safe_execute_code exec code df w =
        (if isinstance e Exception
         then (Inr [''error'' \<mapsto> PyStr (format_exc e)],
               print (''An error occurred during code execution: '' @ msg e) w2)
         else (Inl e, w2))"
    by (rule safe_execute_code_raised)
qed

text \<open>The code \<open>raise ValueError('bad column')\<close> gives the error slot alone.\<close>

theorem safe_execute_code_result_shapes_witness:
  "fst (safe_execute_code exec_sample ''raise ValueError('bad column')'' () empty_world) =
     Inr [''error'' \<mapsto> PyStr (format_exc (raised_in_code ValueError ''bad column''))]"
  using safe_execute_code_result_shapes
    [of exec_sample "''raise ValueError('bad column')''" "()" empty_world _
      "raised_in_code ValueError ''bad column''" "print ''\<newline>--- Executing Code ---'' empty_world"]
  by (simp add: exec_sample_def isinstance_def raised_in_code_def)

text \<open>
  C1 as stated fails: for the code \<open>raise SystemExit\<close> no result of any shape is
  returned, the exception leaves \<open>safe_execute_code\<close>.
\<close>

theorem safe_execute_code_SystemExit_counterexample:
  "fst (safe_execute_code exec_sample ''raise SystemExit'' () empty_world) =
     Inl (raised_in_code SystemExit [])"
  by (simp add: safe_execute_code_def exec_sample_def isinstance_def raised_in_code_def)

text \<open>
  C2. On a failure of the completion call the fragment is built by pasting \<open>str(e)\<close>
  between the quotes of a string literal, unescaped. Here the call raises with the
  two-line message \<open>503 failed to connect:\<close> / \<open>can't reach the endpoint\<close>: the fragment
  returned spans two lines, and the apostrophe of the message closes the literal early.
\<close>

theorem failure_message_not_escaped:
  "fst (generate_analysis_code (failing unavailable) ''plot'' ''schema'' ''head'' ''key'' empty_world) =
     Inr ''print('Error calling AI model: 503 failed to connect:\<newline>can't reach the endpoint')'' \<and>
   \<not> one_line ''print('Error calling AI model: 503 failed to connect:\<newline>can't reach the endpoint')''"
  by (simp add: generate_analysis_code_def configure_model_def request_code_def failing_def
      unavailable_def isinstance_def one_line_def Let_def)

text \<open>
  C3, as amended. When the code runs to completion and leaves \<open>output.png\<close> a readable
  regular file, the result holds exactly the bytes of that file in its image slot and has
  no error slot. The bytes are those of the file, empty when the file is empty.
\<close>

theorem safe_execute_code_captures_artifact:
  "exec code (execution_globals df) (print ''\<newline>--- Executing Code ---'' w) = Completed w2 \<Longrightarrow>
   files w2 ''output.png'' = Some (Regular bs) \<Longrightarrow>
   safe_execute_code exec code df w =
     (Inr [''image'' \<mapsto> PyBytes bs], print ''Successfully captured 'output.png'.'' w2)"
  by (simp add: safe_execute_code_completed capture_output_regular)

text \<open>
  The code \<open>open('output.png', 'wb').write(b'PNG')\<close> gives the three bytes back.
\<close>

theorem safe_execute_code_captures_artifact_witness:
  "fst (safe_execute_code exec_sample ''open('output.png', 'wb').write(b'PNG')'' () empty_world) =
     Inr [''image'' \<mapsto> PyBytes [0x50, 0x4E, 0x47]]"
  using safe_execute_code_captures_artifact
    [of exec_sample "''open('output.png', 'wb').write(b'PNG')''" "()" empty_world
      "write_png [0x50, 0x4E, 0x47] (print ''\<newline>--- Executing Code ---'' empty_world)"
      "[0x50, 0x4E, 0x47]"]
  by (simp add: exec_sample_def write_png_def)

text \<open>
  C3 as stated fails twice. Code that writes the artifact as an empty file gets an image
  slot with no bytes in it; code that writes the artifact and raises afterwards gets the
  error slot and no image.
\<close>

theorem safe_execute_code_artifact_counterexample:
  "fst (safe_execute_code exec_sample ''open('output.png', 'wb').close()'' () empty_world) =
     Inr [''image'' \<mapsto> PyBytes []] \<and>
   fst (safe_execute_code exec_sample
          ''open('output.png', 'wb').write(b'PNG'); raise ValueError('late')'' () empty_world) =
     Inr [''error'' \<mapsto> PyStr (format_exc (raised_in_code ValueError ''late''))]"
  by (simp add: safe_execute_code_def exec_sample_def write_png_def capture_output_def
      open_rb_def read_def on_error_def isinstance_def raised_in_code_def Let_def)

text \<open>
  C4, as amended. When the code runs to completion and no file \<open>output.png\<close> exists
  afterwards, the result is empty: neither slot is populated, and the absence of the file
  is not an error.
\<close>

theorem safe_execute_code_no_artifact:
  "exec code (execution_globals df) (print ''\<newline>--- Executing Code ---'' w) = Completed w2 \<Longrightarrow>
   files w2 ''output.png'' = None \<Longrightarrow>
   safe_execute_code exec code df w =
     (Inr Map.empty,
      print ''No 'output.png' found. The script may have produced other output.'' w2)"
  by (simp add: safe_execute_code_completed capture_output_absent)

text \<open>
  The code \<open>pass\<close> in a working directory without the artifact gives the empty result.
\<close>

theorem safe_execute_code_no_artifact_witness:
  "fst (safe_execute_code exec_sample ''pass'' () empty_world) = Inr Map.empty"
  using safe_execute_code_no_artifact
    [of exec_sample "''pass''" "()" empty_world
      "print ''\<newline>--- Executing Code ---'' empty_world"]
  by (simp add: exec_sample_def empty_world_def print_def)

text \<open>
  C4 as stated fails: the code \<open>pass\<close> writes nothing, but where an \<open>output.png\<close> of
  an earlier run is still in the working directory, its bytes come back in the image slot.
\<close>

theorem safe_execute_code_stale_artifact_counterexample:
  "exec_sample ''pass'' (execution_globals ())
      (print ''\<newline>--- Executing Code ---'' (world_with (Regular [1, 2, 3]))) =
     Completed (print ''\<newline>--- Executing Code ---'' (world_with (Regular [1, 2, 3]))) \<and>
   fst (safe_execute_code exec_sample ''pass'' () (world_with (Regular [1, 2, 3]))) =
     Inr [''image'' \<mapsto> PyBytes [1, 2, 3]]"
  by (simp add: safe_execute_code_def exec_sample_def capture_output_def
      open_rb_def read_def world_with_def print_def Let_def)

text \<open>
  C5, as amended. For a response that wraps \<open>body\<close> in a fence tagged as Python, the
  clean-up yields \<open>body\<close> with the whitespace at both ends removed. This is the code
  returned for the unfenced response \<open>body\<close> whenever \<open>body\<close> has no whitespace at
  either end and does not itself start with the marker.
\<close>

theorem fenced_response_yields_stripped_body:
  assumes "answers g api_key (full_prompt user_prompt df_schema df_head) (fenced body)"
    and "answers g' api_key (full_prompt user_prompt df_schema df_head) body"
  shows "fst (generate_analysis_code g user_prompt df_schema df_head api_key w) = Inr (strip body) \<and>
    (strip body = body \<and> \<not> startswith body ''```python'' \<longrightarrow>
       fst (generate_analysis_code g user_prompt df_schema df_head api_key w) =
       fst (generate_analysis_code g' user_prompt df_schema df_head api_key w))"
proof -
  from assms(1) have 1: "fst (generate_analysis_code g user_prompt df_schema df_head api_key w) =
      Inr (strip body)"
    by (simp add: generate_answered strip_fence_fenced)
  from assms(2) have 2: "fst (generate_analysis_code g' user_prompt df_schema df_head api_key w) =
      Inr (strip_fence body)"
    by (rule generate_answered)
  have "strip_fence body = body" if "strip body = body" and "\<not> startswith body ''```python''"
    using that by (simp add: strip_fence_plain)
  with 1 2 show ?thesis
    by simp
qed

text \<open>
  The body \<open>x = 1\<close>, fenced and bare, gives the same code.
\<close>

theorem fenced_response_yields_stripped_body_witness:
  "fst (generate_analysis_code (replying (fenced ''x = 1'')) ''plot'' ''schema'' ''head'' ''key''
      empty_world) = Inr ''x = 1'' \<and>
   fst (generate_analysis_code (replying (fenced ''x = 1'')) ''plot'' ''schema'' ''head'' ''key''
      empty_world) =
   fst (generate_analysis_code (replying ''x = 1'') ''plot'' ''schema'' ''head'' ''key''
      empty_world)"
proof -
  have s: "strip ''x = 1'' = ''x = 1''"
    by (simp add: strip_def strip_where_def py_isspace_def)
  have n: "\<not> startswith ''x = 1'' ''```python''"
    by (simp add: startswith_def)
  have k: "''key'' \<noteq> []"
    by simp
  note t = fenced_response_yields_stripped_body
    [OF answers_replying [OF k] answers_replying [OF k],
      of "''x = 1''" "''plot''" "''schema''" "''head''" empty_world]
  from t [THEN conjunct1] have a: "fst (generate_analysis_code (replying (fenced ''x = 1''))
      ''plot'' ''schema'' ''head'' ''key'' empty_world) = Inr ''x = 1''"
    by (simp only: s)
  from t [THEN conjunct2] s n have b: "fst (generate_analysis_code (replying (fenced ''x = 1''))
      ''plot'' ''schema'' ''head'' ''key'' empty_world) =
    fst (generate_analysis_code (replying ''x = 1'') ''plot'' ''schema'' ''head'' ''key''
      empty_world)"
    by blast
  from a b show ?thesis
    by (rule conjI)
qed

text \<open>
  C5 as stated fails: an unfenced response is returned as it is, whitespace included,
  so the body \<open>x = 1\<close> followed by a line feed gives \<open>x = 1\<close> when fenced and keeps
  its line feed when bare.
\<close>

theorem fence_round_trip_counterexample:
  "fst (generate_analysis_code (replying (fenced ''x = 1\<newline>'')) ''plot'' ''schema'' ''head'' ''key''
      empty_world) = Inr ''x = 1'' \<and>
   fst (generate_analysis_code (replying ''x = 1\<newline>'') ''plot'' ''schema'' ''head'' ''key''
      empty_world) = Inr ''x = 1\<newline>''"
proof -
  have k: "''key'' \<noteq> []"
    by simp
  have a: "strip_fence (fenced ''x = 1\<newline>'') = ''x = 1''"
    by (simp add: strip_fence_fenced) (simp add: strip_def strip_where_def py_isspace_def)
  have b: "strip_fence ''x = 1\<newline>'' = ''x = 1\<newline>''"
    by (simp add: strip_fence_def strip_def strip_where_def py_isspace_def startswith_def)
  show ?thesis
    by (simp add: generate_answered [OF answers_replying [OF k]] a b)
qed

text \<open>
  C7. The globals handed to \<open>exec\<close> bind exactly two names, \<open>df\<close> to the dataset and
  \<open>pd\<close> to the pandas module, and \<open>exec\<close> is run on the code text under these globals
  only: the result depends on \<open>exec\<close> through this one call.
\<close>

theorem execution_globals_only_df_pd:
  "dom (execution_globals df) = {''df'', ''pd''} \<and>
   execution_globals df ''df'' = Some (Dataset df) \<and>
   execution_globals df ''pd'' = Some Pandas \<and>
   safe_execute_code exec code df w =
     safe_execute_code
       (\<lambda>c g w'. exec code (execution_globals df) (print ''\<newline>--- Executing Code ---'' w))
       code df w"
  by (auto simp: execution_globals_def safe_execute_code_def)

text \<open>
  C8. When the code runs to completion but opening or reading \<open>output.png\<close> raises an
  exception other than \<open>FileNotFoundError\<close>, the result holds the trace of that exception
  in its error slot, and nothing else.
\<close>

theorem safe_execute_code_read_failure:
  "exec code (execution_globals df) (print ''\<newline>--- Executing Code ---'' w) = Completed w2 \<Longrightarrow>
   open_rb w2 ''output.png'' = Inl e \<or>
     (\<exists>f. open_rb w2 ''output.png'' = Inr f \<and> read f = Inl e) \<Longrightarrow>
   \<not> isinstance e FileNotFoundError \<Longrightarrow>
   safe_execute_code exec code df w =
     (Inr [''error'' \<mapsto> PyStr (format_exc e)],
      print (''An error occurred during code execution: '' @ msg e) w2)"
  by (auto simp: safe_execute_code_completed capture_output_open_fails capture_output_read_fails)

text \<open>
  Where \<open>output.png\<close> is a directory, the code \<open>pass\<close> gets the trace of the
  \<open>IsADirectoryError\<close>.
\<close>

theorem safe_execute_code_read_failure_witness:
  "fst (safe_execute_code exec_sample ''pass'' () (world_with Directory)) =
     Inr [''error'' \<mapsto> PyStr (format_exc
       (os_error IsADirectoryError ''[Errno 21] Is a directory'' ''output.png''))]"
  using safe_execute_code_read_failure
    [of exec_sample "''pass''" "()" "world_with Directory"
      "print ''\<newline>--- Executing Code ---'' (world_with Directory)"
      "os_error IsADirectoryError ''[Errno 21] Is a directory'' ''output.png''"]
  by (simp add: exec_sample_def world_with_def print_def open_rb_def os_error_def isinstance_def)

text \<open>
  C9. The clean-up applies only when the response, stripped of surrounding whitespace,
  starts with the marker tagged \<open>python\<close>. Any other response is returned unchanged, a
  bare fence without the tag included.
\<close>

theorem untagged_response_unchanged:
  "answers g api_key (full_prompt user_prompt df_schema df_head) r \<Longrightarrow>
   \<not> startswith (strip r) ''```python'' \<Longrightarrow>
   fst (generate_analysis_code g user_prompt df_schema df_head api_key w) = Inr r"
  by (simp add: generate_answered strip_fence_plain)

text \<open>
  A response in a bare fence comes back with its fence.
\<close>

theorem untagged_response_unchanged_witness:
  "fst (generate_analysis_code (replying ''```\<newline>x = 1\<newline>```'') ''plot'' ''schema'' ''head'' ''key''
      empty_world) = Inr ''```\<newline>x = 1\<newline>```''"
proof -
  have k: "''key'' \<noteq> []"
    by simp
  have n: "\<not> startswith (strip ''```\<newline>x = 1\<newline>```'') ''```python''"
    by (simp add: startswith_def strip_def strip_where_def py_isspace_def)
  from untagged_response_unchanged [OF answers_replying [OF k] n]
  show ?thesis .
qed

text \<open>
  C10. With an empty credential the function returns the fixed fragment, whatever the
  prompt, the schema and the preview are and whatever the endpoint would do; the world is
  left as it was, so the endpoint is not contacted.
\<close>

theorem missing_api_key_fragment:
  "generate_analysis_code g user_prompt df_schema df_head [] w =
     (Inr ''print('Error configuring AI model: API key is missing.')'', w)"
  by (simp add: generate_analysis_code_def configure_model_def isinstance_def)

end
